theory Spec2Isabelle
  imports Complex_Main
begin

section \<open>Python values shared by the example scripts\<close>

text \<open>
  The repository is a set of independent Python example scripts. Each section below
  embeds the functions of one script. Library calls (tiktoken, the OpenAI SDK, the Redis
  client, sklearn) are not part of the repository: a function that calls one takes the
  library's behaviour as a parameter, or, for Redis and \<open>json\<close>, runs against a small
  executable model of the library.

  Python's \<open>int\<close> is \<open>int\<close>. A Python \<open>float\<close> is modelled by the real number it
  stands for: rounding and overflow of IEEE doubles are not modelled. The two are kept
  apart by a tag, since \<open>1\<close> and \<open>1.0\<close> are different Python objects.
\<close>

datatype pynum = PyInt int | PyFloat real

fun num_value :: "pynum \<Rightarrow> real" where
  "num_value (PyInt i) = of_int i"
| "num_value (PyFloat x) = x"

fun is_float :: "pynum \<Rightarrow> bool" where
  "is_float (PyInt i) = False"
| "is_float (PyFloat x) = True"


text \<open>
  An exception caught by \<open>except Exception\<close>. \<open>Error m\<close> is any exception other than
  FastAPI's \<open>HTTPException\<close>, with \<open>m\<close> its \<open>str(e)\<close>; \<open>HTTPException\<close> carries its
  status code and detail.
\<close>

datatype exn = Error string | HTTPException int string

text \<open>
  \<open>str.split()\<close> with no argument: the maximal runs of non-whitespace characters.
  Characters are code points below 256; the whitespace ones are the twelve for which
  \<open>str.isspace\<close> holds there.
\<close>

definition isspace :: "char \<Rightarrow> bool" where
  "isspace c = (of_char c \<in> {9, 10, 11, 12, 13, 28, 29, 30, 31, 32, 133, 160 :: nat})"

fun split_from :: "string \<Rightarrow> string \<Rightarrow> string list" where
  "split_from w [] = (if w = [] then [] else [w])"
| "split_from w (c # cs) =
     (if isspace c then (if w = [] then split_from [] cs else w # split_from [] cs)
      else split_from (w @ [c]) cs)"

definition split :: "string \<Rightarrow> string list" where
  "split text = split_from [] text"

section \<open>Token counting and cost\<close>

subsection \<open>fastapi-openai/example-chat-api.py\<close>

text \<open>
  \<open>tiktoken.encoding_for_model(model)\<close> returns an encoding or raises (\<open>KeyError\<close> for a
  model it does not know); \<open>encoding.encode(text)\<close> returns the token ids or raises.
\<close>

type_synonym encoding = "string \<Rightarrow> exn + nat list"
type_synonym tiktoken = "string \<Rightarrow> exn + encoding"

text \<open>
  \<^verbatim>\<open>
  def count_tokens(text: str, model: str = "gpt-4") -> int:
      try:
          encoding = tiktoken.encoding_for_model(model)
          return len(encoding.encode(text))
      except Exception:
          return len(text.split()) * 1.3
  \<close>
\<close>

definition count_tokens_chat_api :: "tiktoken \<Rightarrow> string \<Rightarrow> string \<Rightarrow> pynum" where
  "count_tokens_chat_api encoding_for_model text model =
     (case encoding_for_model model of
        Inl e \<Rightarrow> PyFloat (real (length (split text)) * 1.3)
      | Inr encoding \<Rightarrow>
          (case encoding text of
             Inl e \<Rightarrow> PyFloat (real (length (split text)) * 1.3)
           | Inr tokens \<Rightarrow> PyInt (int (length tokens))))"

text \<open>
  \<^verbatim>\<open>
  def calculate_cost(tokens: int, model: str) -> float:
      pricing = {"gpt-4": 0.03, "gpt-4-turbo": 0.01, "gpt-3.5-turbo": 0.002}
      rate = pricing.get(model, 0.03)
      return (tokens / 1000) * rate
  \<close>
  The callers pass what \<open>count_tokens\<close> returned plus \<open>max_tokens\<close>, so \<open>tokens\<close> is a
  number of either kind; \<open>/\<close> is true division and the result is a float.
\<close>

definition pricing :: "string \<rightharpoonup> real" where
  "pricing = [''gpt-4'' \<mapsto> 0.03, ''gpt-4-turbo'' \<mapsto> 0.01, ''gpt-3.5-turbo'' \<mapsto> 0.002]"

definition calculate_cost :: "pynum \<Rightarrow> string \<Rightarrow> real" where
  "calculate_cost tokens model =
     (let rate = (case pricing model of Some r \<Rightarrow> r | None \<Rightarrow> 0.03)
      in (num_value tokens / 1000) * rate)"

subsection \<open>fastapi-openai/example-function-calling-api.py\<close>

text \<open>
  \<^verbatim>\<open>
  def count_tokens(text: str) -> int:
      return len(text.split()) * 1.3
  \<close>
\<close>

definition count_tokens_function_calling_api :: "string \<Rightarrow> pynum" where
  "count_tokens_function_calling_api text = PyFloat (real (length (split text)) * 1.3)"

subsection \<open>ai-llm/openai/example-embeddings.py and fastapi-openai/example-embeddings-api.py\<close>





section \<open>fastapi-openai/example-chat-api.py: the chat endpoint\<close>


record ChatRequest =
  message :: string
  conversation_id :: "string option"
  model :: "string option"
  req_temperature :: "real option"
  req_max_tokens :: "int option"


text \<open>A chat message \<open>{"role": r, "content": c}\<close>; the SDK's content may be \<open>None\<close>.\<close>

type_synonym chat_message = "string \<times> string option"

record usage =
  total_requests :: int
  total_tokens :: int
  total_cost :: real
  user_conversations :: "string set"
  processing_times :: "real list"


text \<open>
  What \<open>openai_client.chat.completions.create\<close> returns: the contents of the choices'
  messages and \<open>usage.total_tokens\<close> (\<open>usage\<close> may be \<open>None\<close>).
\<close>

record completion =
  choices :: "string option list"
  usage_total_tokens :: "int option"

text \<open>
  What the endpoint reads from outside the repository: tiktoken, the OpenAI call, a fresh
  \<open>uuid4\<close>, the clock read at the start and before returning, and two renderings to
  text: \<open>str(e)\<close> of an \<open>HTTPException\<close> (which depends on the Starlette version) and
  the f-string rendering of a float.
\<close>

record chat_env =
  encoding_for_model :: tiktoken
  create :: "string \<Rightarrow> chat_message list \<Rightarrow> real \<Rightarrow> int \<Rightarrow> exn + completion"
  uuid4 :: string
  time_start :: real
  time_end :: real
  http_str :: "int \<Rightarrow> string \<Rightarrow> string"
  float_str :: "real \<Rightarrow> string"




definition or_int :: "int option \<Rightarrow> int \<Rightarrow> int" where
  "or_int x d = (case x of None \<Rightarrow> d | Some i \<Rightarrow> if i = 0 then d else i)"





section \<open>Python values and the \<open>json\<close> module\<close>

text \<open>
  The values the caches store and return: \<open>None\<close>, booleans, ints, floats (with the
  three non-finite ones apart), strings, lists and dicts. A dict is the list of its items
  in insertion order; its keys are any of the hashable values. Tuples, bytes, sets and
  objects of user classes are outside the model.
\<close>

datatype pyval =
    PNone
  | PBool bool
  | PInt int
  | PFloat real
  | PNaN
  | PInf
  | PNegInf
  | PStr string
  | PList "pyval list"
  | PDict "(pyval \<times> pyval) list"

fun truthy :: "pyval \<Rightarrow> bool" where
  "truthy PNone = False"
| "truthy (PBool b) = b"
| "truthy (PInt i) = (i \<noteq> 0)"
| "truthy (PFloat x) = (x \<noteq> 0)"
| "truthy PNaN = True"
| "truthy PInf = True"
| "truthy PNegInf = True"
| "truthy (PStr s) = (s \<noteq> [])"
| "truthy (PList xs) = (xs \<noteq> [])"
| "truthy (PDict kvs) = (kvs \<noteq> [])"

section \<open>\<open>json.dumps\<close>\<close>

text \<open>
  \<open>json.dumps(value)\<close> with the default separators and \<open>ensure_ascii=True\<close>. Dict keys
  are coerced to strings: a \<open>str\<close> stays, an int, a float, a boolean and \<open>None\<close> are
  rendered as in JSON, anything else raises \<open>TypeError\<close>. In a string every character
  outside \<open>' '..'~'\<close> is escaped. \<open>float.__repr__\<close> is not modelled: it is the parameter
  \<open>frepr\<close>.
\<close>

definition digit_char :: "nat \<Rightarrow> char" where
  "digit_char d = ''0123456789'' ! d"

fun digits :: "nat \<Rightarrow> string" where
  "digits n = (if n < 10 then [digit_char n] else digits (n div 10) @ [digit_char (n mod 10)])"

declare digits.simps [simp del]

definition repr_int :: "int \<Rightarrow> string" where
  "repr_int i = (if i < 0 then CHR ''-'' # digits (nat (- i)) else digits (nat i))"

definition hex_char :: "nat \<Rightarrow> char" where
  "hex_char d = ''0123456789abcdef'' ! d"

definition escape_char :: "char \<Rightarrow> string" where
  "escape_char c =
     (if c = CHR 0x22 then [CHR 0x5C, CHR 0x22]
      else if c = CHR 0x5C then [CHR 0x5C, CHR 0x5C]
      else if c = CHR 0x0A then [CHR 0x5C, CHR ''n'']
      else if c = CHR 0x0D then [CHR 0x5C, CHR ''r'']
      else if c = CHR 0x09 then [CHR 0x5C, CHR ''t'']
      else if c = CHR 0x08 then [CHR 0x5C, CHR ''b'']
      else if c = CHR 0x0C then [CHR 0x5C, CHR ''f'']
      else if 32 \<le> (of_char c :: nat) \<and> (of_char c :: nat) \<le> 126 then [c]
      else [CHR 0x5C, CHR ''u'', CHR ''0'', CHR ''0'',
            hex_char (of_char c div 16), hex_char (of_char c mod 16)])"

definition encode_str :: "string \<Rightarrow> string" where
  "encode_str s = CHR 0x22 # concat (map escape_char s) @ [CHR 0x22]"

fun encode_key :: "(real \<Rightarrow> string) \<Rightarrow> pyval \<Rightarrow> string option" where
  "encode_key frepr (PStr s) = Some s"
| "encode_key frepr (PFloat x) = Some (frepr x)"
| "encode_key frepr PNaN = Some ''NaN''"
| "encode_key frepr PInf = Some ''Infinity''"
| "encode_key frepr PNegInf = Some ''-Infinity''"
| "encode_key frepr (PBool b) = Some (if b then ''true'' else ''false'')"
| "encode_key frepr PNone = Some ''null''"
| "encode_key frepr (PInt i) = Some (repr_int i)"
| "encode_key frepr (PList xs) = None"
| "encode_key frepr (PDict kvs) = None"

fun encode :: "(real \<Rightarrow> string) \<Rightarrow> pyval \<Rightarrow> string option"
  and encode_list :: "(real \<Rightarrow> string) \<Rightarrow> pyval list \<Rightarrow> string option"
  and encode_items :: "(real \<Rightarrow> string) \<Rightarrow> (pyval \<times> pyval) list \<Rightarrow> string option"
where
  "encode frepr PNone = Some ''null''"
| "encode frepr (PBool b) = Some (if b then ''true'' else ''false'')"
| "encode frepr (PInt i) = Some (repr_int i)"
| "encode frepr (PFloat x) = Some (frepr x)"
| "encode frepr PNaN = Some ''NaN''"
| "encode frepr PInf = Some ''Infinity''"
| "encode frepr PNegInf = Some ''-Infinity''"
| "encode frepr (PStr s) = Some (encode_str s)"
| "encode frepr (PList xs) =
     (case encode_list frepr xs of None \<Rightarrow> None | Some body \<Rightarrow> Some (''['' @ body @ '']''))"
| "encode frepr (PDict kvs) =
     (case encode_items frepr kvs of None \<Rightarrow> None | Some body \<Rightarrow> Some (''{'' @ body @ ''}''))"
| "encode_list frepr [] = Some []"
| "encode_list frepr (x # xs) =
     (case encode frepr x of
        None \<Rightarrow> None
      | Some a \<Rightarrow>
          if xs = [] then Some a
          else (case encode_list frepr xs of None \<Rightarrow> None | Some b \<Rightarrow> Some (a @ '', '' @ b)))"
| "encode_items frepr [] = Some []"
| "encode_items frepr ((k, v) # kvs) =
     (case encode_key frepr k of
        None \<Rightarrow> None
      | Some ks \<Rightarrow>
         (case encode frepr v of
            None \<Rightarrow> None
          | Some a \<Rightarrow>
              let item = encode_str ks @ '': '' @ a
              in if kvs = [] then Some item
                 else (case encode_items frepr kvs of None \<Rightarrow> None | Some b \<Rightarrow> Some (item @ '', '' @ b))))"






definition json_dumps :: "(real \<Rightarrow> string) \<Rightarrow> pyval \<Rightarrow> exn + string" where
  "json_dumps frepr v =
     (case encode frepr v of
        None \<Rightarrow> Inl (Error ''keys must be str, int, float, bool or None'')
      | Some s \<Rightarrow> Inr s)"

section \<open>\<open>json.loads\<close>\<close>

text \<open>
  The scanner of \<open>json.decoder\<close>: whitespace is blank, tab, newline and carriage
  return; a number is \<open>-?(0|[1-9][0-9]*)(\.[0-9]+)?([eE][-+]?[0-9]+)?\<close> and is an int
  unless it has a fraction or an exponent; \<open>NaN\<close>, \<open>Infinity\<close> and \<open>-Infinity\<close>
  are accepted; a string ends at the first unescaped quote and may hold no control
  character. \<open>None\<close> is \<open>JSONDecodeError\<close>. Characters are code points below 256, so an
  escape \<open>\uXXXX\<close> above \<open>\u00ff\<close> has no value in the model and is refused.
\<close>

definition json_ws :: "char \<Rightarrow> bool" where
  "json_ws c = (c = CHR '' '' \<or> c = CHR 0x09 \<or> c = CHR 0x0A \<or> c = CHR 0x0D)"

definition skip_ws :: "string \<Rightarrow> string" where
  "skip_ws s = dropWhile json_ws s"

definition is_digit :: "char \<Rightarrow> bool" where
  "is_digit c = (48 \<le> (of_char c :: nat) \<and> (of_char c :: nat) \<le> 57)"

definition digit_value :: "char \<Rightarrow> nat" where
  "digit_value c = of_char c - 48"

definition digits_value :: "string \<Rightarrow> nat" where
  "digits_value ds = foldl (\<lambda>a c. 10 * a + digit_value c) 0 ds"

definition hex_value :: "char \<Rightarrow> nat option" where
  "hex_value c =
     (let n = (of_char c :: nat)
      in if 48 \<le> n \<and> n \<le> 57 then Some (n - 48)
         else if 97 \<le> n \<and> n \<le> 102 then Some (n - 87)
         else if 65 \<le> n \<and> n \<le> 70 then Some (n - 55)
         else None)"

definition unescape :: "char \<Rightarrow> char option" where
  "unescape e =
     (if e = CHR 0x22 then Some (CHR 0x22)
      else if e = CHR 0x5C then Some (CHR 0x5C)
      else if e = CHR ''/'' then Some (CHR ''/'')
      else if e = CHR ''b'' then Some (CHR 0x08)
      else if e = CHR ''f'' then Some (CHR 0x0C)
      else if e = CHR ''n'' then Some (CHR 0x0A)
      else if e = CHR ''r'' then Some (CHR 0x0D)
      else if e = CHR ''t'' then Some (CHR 0x09)
      else None)"

definition decode_hex4 :: "char \<Rightarrow> char \<Rightarrow> char \<Rightarrow> char \<Rightarrow> char option" where
  "decode_hex4 a b c d =
     (case (hex_value a, hex_value b, hex_value c, hex_value d) of
        (Some x, Some y, Some z, Some w) \<Rightarrow>
          if x = 0 \<and> y = 0 then Some (char_of (16 * z + w)) else None
      | _ \<Rightarrow> None)"

fun scanstring :: "string \<Rightarrow> string \<Rightarrow> (string \<times> string) option" where
  "scanstring acc [] = None"
| "scanstring acc (c # r) =
     (if c = CHR 0x22 then Some (acc, r)
      else if c = CHR 0x5C then
        (case r of
           [] \<Rightarrow> None
         | e # r1 \<Rightarrow>
            if e = CHR ''u'' then
              (case r1 of
                 h1 # h2 # h3 # h4 # r2 \<Rightarrow>
                   (case decode_hex4 h1 h2 h3 h4 of
                      None \<Rightarrow> None
                    | Some ch \<Rightarrow> scanstring (acc @ [ch]) r2)
               | _ \<Rightarrow> None)
            else
              (case unescape e of None \<Rightarrow> None | Some ch \<Rightarrow> scanstring (acc @ [ch]) r1))
      else if (of_char c :: nat) < 32 then None
      else scanstring (acc @ [c]) r)"

definition match_number :: "string \<Rightarrow> (pyval \<times> string) option" where
  "match_number s =
     (let neg = (s \<noteq> [] \<and> hd s = CHR ''-'');
          s1 = (if neg then tl s else s)
      in case s1 of
           [] \<Rightarrow> None
         | d # r \<Rightarrow>
            if \<not> is_digit d then None
            else
              (let ip = (if d = CHR ''0'' then [d] else takeWhile is_digit s1);
                   r1 = (if d = CHR ''0'' then r else dropWhile is_digit s1);
                   fr = (case r1 of
                           c # r2 \<Rightarrow> if c = CHR ''.'' \<and> r2 \<noteq> [] \<and> is_digit (hd r2)
                                     then takeWhile is_digit r2 else []
                         | [] \<Rightarrow> []);
                   r3 = (if fr = [] then r1 else dropWhile is_digit (tl r1));
                   ex = (case r3 of
                           c # r4 \<Rightarrow>
                             if c = CHR ''e'' \<or> c = CHR ''E'' then
                               (case r4 of
                                  sg # r5 \<Rightarrow>
                                    if (sg = CHR ''+'' \<or> sg = CHR ''-'') \<and> r5 \<noteq> [] \<and> is_digit (hd r5)
                                    then Some (sg = CHR ''-'', takeWhile is_digit r5, dropWhile is_digit r5)
                                    else if is_digit sg
                                    then Some (False, takeWhile is_digit r4, dropWhile is_digit r4)
                                    else None
                                | [] \<Rightarrow> None)
                             else None
                         | [] \<Rightarrow> None)
               in case ex of
                    None \<Rightarrow>
                      if fr = [] then
                        Some (PInt (if neg then - int (digits_value ip) else int (digits_value ip)), r3)
                      else
                        Some (PFloat ((if neg then - 1 else 1) *
                                (real (digits_value ip) + real (digits_value fr) / 10 ^ length fr)), r3)
                  | Some (eneg, eds, r6) \<Rightarrow>
                      Some (PFloat ((if neg then - 1 else 1) *
                              (real (digits_value ip) + real (digits_value fr) / 10 ^ length fr) *
                              (if eneg then 1 / 10 ^ digits_value eds else 10 ^ digits_value eds)), r6)))"

fun dict_set :: "('k \<times> 'v) list \<Rightarrow> 'k \<Rightarrow> 'v \<Rightarrow> ('k \<times> 'v) list" where
  "dict_set [] k v = [(k, v)]"
| "dict_set ((k', v') # kvs) k v = (if k' = k then (k, v) # kvs else (k', v') # dict_set kvs k v)"

lemma scanstring_shorter: "scanstring acc s = Some (t, r) \<Longrightarrow> length r < length s"
proof (induction acc s arbitrary: t r rule: scanstring.induct)
  case (1 acc)
  then show ?case by simp
next
  case (2 acc c s)
  note prem = "2.prems"
  show ?case
  proof (cases "c = CHR 0x22")
    case True
    with prem show ?thesis by simp
  next
    case nq: False
    show ?thesis
    proof (cases "c = CHR 0x5C")
      case nb: False
      with nq prem have small: "\<not> (of_char c :: nat) < 32"
        and rec: "scanstring (acc @ [c]) s = Some (t, r)"
        by (auto split: if_splits)
      from "2.IH"(3) [OF nq nb small rec] show ?thesis by simp
    next
      case bs: True
      show ?thesis
      proof (cases s)
        case Nil
        with bs nq prem show ?thesis by simp
      next
        case (Cons e r1)
        show ?thesis
        proof (cases "e = CHR ''u''")
          case False
          with Cons bs nq prem obtain ch where ch: "unescape e = Some ch"
            and rec: "scanstring (acc @ [ch]) r1 = Some (t, r)"
            by (cases "unescape e") auto
          from "2.IH"(2) [OF nq bs Cons False ch rec] Cons show ?thesis by simp
        next
          case True
          with Cons bs nq prem obtain h1 h2 h3 h4 r2 ch where
            r1: "r1 = h1 # h2 # h3 # h4 # r2" and ch: "decode_hex4 h1 h2 h3 h4 = Some ch"
            and rec: "scanstring (acc @ [ch]) r2 = Some (t, r)"
            by (auto split: list.splits option.splits)
          from "2.IH"(1) [OF nq bs Cons True r1 _ _ _ ch rec] r1 Cons show ?thesis by force
        qed
      qed
    qed
  qed
qed

lemma skip_ws_length: "length (skip_ws s) \<le> length s"
  by (simp add: skip_ws_def length_dropWhile_le)

function scan_once :: "string \<Rightarrow> (pyval \<times> string) option"
  and parse_array :: "pyval list \<Rightarrow> string \<Rightarrow> (pyval \<times> string) option"
  and parse_object :: "(pyval \<times> pyval) list \<Rightarrow> string \<Rightarrow> (pyval \<times> string) option"
where
  "scan_once s =
     (case s of
        [] \<Rightarrow> None
      | c # r \<Rightarrow>
          if c = CHR 0x22 then
            (case scanstring [] r of None \<Rightarrow> None | Some (str, rest) \<Rightarrow> Some (PStr str, rest))
          else if c = CHR ''{'' then
            (case skip_ws r of
               [] \<Rightarrow> None
             | d # t \<Rightarrow>
                 if d = CHR ''}'' then Some (PDict [], t)
                 else if d = CHR 0x22 then parse_object [] t
                 else None)
          else if c = CHR ''['' then
            (case skip_ws r of
               [] \<Rightarrow> None
             | d # t \<Rightarrow> if d = CHR '']'' then Some (PList [], t) else parse_array [] (d # t))
          else if take 4 s = ''null'' then Some (PNone, drop 4 s)
          else if take 4 s = ''true'' then Some (PBool True, drop 4 s)
          else if take 5 s = ''false'' then Some (PBool False, drop 5 s)
          else
            (case match_number s of
               Some res \<Rightarrow> Some res
             | None \<Rightarrow>
                 if take 3 s = ''NaN'' then Some (PNaN, drop 3 s)
                 else if take 8 s = ''Infinity'' then Some (PInf, drop 8 s)
                 else if take 9 s = ''-Infinity'' then Some (PNegInf, drop 9 s)
                 else None))"
| "parse_array acc s =
     (case scan_once s of
        None \<Rightarrow> None
      | Some (v, rest) \<Rightarrow>
          if length rest < length s then
            (case skip_ws rest of
               [] \<Rightarrow> None
             | d # t \<Rightarrow>
                 if d = CHR '']'' then Some (PList (acc @ [v]), t)
                 else if d = CHR '','' then parse_array (acc @ [v]) (skip_ws t)
                 else None)
          else None)"
| "parse_object acc s =
     (case scanstring [] s of
        None \<Rightarrow> None
      | Some (key, r1) \<Rightarrow>
         (case skip_ws r1 of
            [] \<Rightarrow> None
          | c # r2 \<Rightarrow>
             if c \<noteq> CHR '':'' then None
             else
               (case scan_once (skip_ws r2) of
                  None \<Rightarrow> None
                | Some (v, r3) \<Rightarrow>
                    if length r3 < length s then
                      (case skip_ws r3 of
                         [] \<Rightarrow> None
                       | d # t \<Rightarrow>
                           if d = CHR ''}'' then Some (PDict (dict_set acc (PStr key) v), t)
                           else if d = CHR '','' then
                             (case skip_ws t of
                                [] \<Rightarrow> None
                              | q # t' \<Rightarrow>
                                  if q = CHR 0x22 then parse_object (dict_set acc (PStr key) v) t'
                                  else None)
                           else None)
                    else None)))"
  by pat_completeness auto
termination
proof (relation "measure (\<lambda>x. case x of
          Inl s \<Rightarrow> 2 * length s
        | Inr (Inl (acc, s)) \<Rightarrow> 2 * length s + 1
        | Inr (Inr (acc, s)) \<Rightarrow> 2 * length s + 1)", goal_cases)
  case 1 show ?case by simp
next
  case (2 s c r d t)
  then have "length t < length r"
    using skip_ws_length [of r] by simp
  with 2 show ?case by simp
next
  case (3 s c r d t)
  then have "length (d # t) \<le> length r"
    using skip_ws_length [of r] by simp
  with 3 show ?case by simp
next
  case 4 show ?case by simp
next
  case (5 acc s x v rest d t)
  have "length (skip_ws t) \<le> length t" by (rule skip_ws_length)
  moreover have "length t < length rest"
    using 5 skip_ws_length [of rest] by simp
  ultimately show ?case using 5 by simp
next
  case (6 acc s x key r1 c r2)
  have "length r1 < length s" using 6 scanstring_shorter by blast
  moreover have "length r2 < length r1" using 6 skip_ws_length [of r1] by simp
  moreover have "length (skip_ws r2) \<le> length r2" by (rule skip_ws_length)
  ultimately show ?case by simp
next
  case (7 acc s x key r1 c r2 y v r3 d t q t')
  have "length t' < length t" using 7 skip_ws_length [of t] by simp
  moreover have "length t < length r3" using 7 skip_ws_length [of r3] by simp
  ultimately show ?case using 7 by simp
qed

declare scan_once.simps [simp del] parse_array.simps [simp del] parse_object.simps [simp del]

text \<open>
  \<open>json.loads(s)\<close>: one value between optional whitespace, and nothing after it.
\<close>

definition json_loads :: "string \<Rightarrow> pyval option" where
  "json_loads s =
     (case scan_once (skip_ws s) of
        None \<Rightarrow> None
      | Some (v, rest) \<Rightarrow> if skip_ws rest = [] then Some v else None)"



section \<open>The Redis client\<close>

text \<open>
  redis-py is a library: the wrappers below take its commands as a parameter, a record of
  functions on the client's state \<open>'s\<close> (the connection and all that is behind it). A
  command returns its result or raises, and leaves a new state either way.
\<close>

type_synonym ('s, 'a) call = "'s \<Rightarrow> (exn + 'a) \<times> 's"

record 's redis_api =
  cmd_set :: "string \<Rightarrow> pyval \<Rightarrow> ('s, bool) call"
  cmd_setex :: "string \<Rightarrow> int \<Rightarrow> pyval \<Rightarrow> ('s, bool) call"
  cmd_get :: "string \<Rightarrow> ('s, string option) call"
  cmd_exists :: "string \<Rightarrow> ('s, int) call"
  cmd_delete :: "string \<Rightarrow> ('s, int) call"
  cmd_incr :: "string \<Rightarrow> int \<Rightarrow> ('s, int) call"
  cmd_expire :: "string \<Rightarrow> int \<Rightarrow> ('s, bool) call"
  cmd_ttl :: "string \<Rightarrow> ('s, int) call"
  cmd_flushdb :: "('s, bool) call"
  cmd_info :: "('s, string \<rightharpoonup> pyval) call"
  cmd_dbsize :: "('s, int) call"

text \<open>
  An executable Redis to run the wrappers against, as a client created with
  \<open>decode_responses=True\<close> sees it: the keys with their string values and remaining
  time to live in seconds (\<open>None\<close>: no expiry), whether the server can be reached, the
  number of commands the client has sent, and what \<open>INFO\<close> reports. A command sent to a
  server that cannot be reached raises \<open>ConnectionError\<close>.
\<close>

record redis =
  entries :: "string \<rightharpoonup> string \<times> int option"
  available :: bool
  commands :: nat
  server_info :: "string \<rightharpoonup> pyval"

definition command :: "(redis \<Rightarrow> (exn + 'a) \<times> redis) \<Rightarrow> (redis, 'a) call" where
  "command run s =
     (let s1 = s\<lparr>commands := commands s + 1\<rparr>
      in if available s then run s1 else (Inl (Error ''Connection refused''), s1))"

text \<open>
  What redis-py sends for a value: a \<open>str\<close> as it is, an int or a float as its
  \<open>repr\<close>; for every other value (a boolean and \<open>None\<close> included) it raises
  \<open>DataError\<close> before anything is sent.
\<close>

fun encode_value :: "(real \<Rightarrow> string) \<Rightarrow> pyval \<Rightarrow> exn + string" where
  "encode_value frepr (PStr s) = Inr s"
| "encode_value frepr (PInt i) = Inr (repr_int i)"
| "encode_value frepr (PFloat x) = Inr (frepr x)"
| "encode_value frepr PNaN = Inr ''nan''"
| "encode_value frepr PInf = Inr ''inf''"
| "encode_value frepr PNegInf = Inr ''-inf''"
| "encode_value frepr v = Inl (Error ''Invalid input: convert to a bytes, string, int or float first'')"

text \<open>
  \<open>INCRBY\<close> reads the stored string as a signed 64-bit integer in canonical decimal
  form, and refuses a result outside that range.
\<close>

definition parse_ll :: "string \<Rightarrow> int option" where
  "parse_ll s =
     (let ds = (if s \<noteq> [] \<and> hd s = CHR ''-'' then tl s else s);
          v = (if s \<noteq> [] \<and> hd s = CHR ''-'' then - int (digits_value ds) else int (digits_value ds))
      in if ds \<noteq> [] \<and> list_all is_digit ds \<and> repr_int v = s
            \<and> - (2 ^ 63) \<le> v \<and> v < 2 ^ 63
         then Some v else None)"

definition mem_set :: "(real \<Rightarrow> string) \<Rightarrow> string \<Rightarrow> pyval \<Rightarrow> (redis, bool) call" where
  "mem_set frepr key v s =
     (case encode_value frepr v of
        Inl e \<Rightarrow> (Inl e, s)
      | Inr data \<Rightarrow> command (\<lambda>s. (Inr True, s\<lparr>entries := (entries s)(key \<mapsto> (data, None))\<rparr>)) s)"

definition mem_setex :: "(real \<Rightarrow> string) \<Rightarrow> string \<Rightarrow> int \<Rightarrow> pyval \<Rightarrow> (redis, bool) call" where
  "mem_setex frepr key ttl v s =
     (case encode_value frepr v of
        Inl e \<Rightarrow> (Inl e, s)
      | Inr data \<Rightarrow>
          command (\<lambda>s. if ttl \<le> 0 then (Inl (Error ''invalid expire time in setex command''), s)
                       else (Inr True, s\<lparr>entries := (entries s)(key \<mapsto> (data, Some ttl))\<rparr>)) s)"

definition mem_get :: "string \<Rightarrow> (redis, string option) call" where
  "mem_get key = command (\<lambda>s. (Inr (map_option fst (entries s key)), s))"

definition mem_exists :: "string \<Rightarrow> (redis, int) call" where
  "mem_exists key = command (\<lambda>s. (Inr (if entries s key = None then 0 else 1), s))"

definition mem_delete :: "string \<Rightarrow> (redis, int) call" where
  "mem_delete key =
     command (\<lambda>s. (Inr (if entries s key = None then 0 else 1), s\<lparr>entries := (entries s)(key := None)\<rparr>))"

definition mem_incr :: "string \<Rightarrow> int \<Rightarrow> (redis, int) call" where
  "mem_incr key amount =
     command (\<lambda>s.
       if amount < - (2 ^ 63) \<or> 2 ^ 63 \<le> amount
       then (Inl (Error ''value is not an integer or out of range''), s)
       else
         (case entries s key of
            None \<Rightarrow> (Inr amount, s\<lparr>entries := (entries s)(key \<mapsto> (repr_int amount, None))\<rparr>)
          | Some (data, ttl) \<Rightarrow>
             (case parse_ll data of
                None \<Rightarrow> (Inl (Error ''value is not an integer or out of range''), s)
              | Some v \<Rightarrow>
                  if v + amount < - (2 ^ 63) \<or> 2 ^ 63 \<le> v + amount
                  then (Inl (Error ''increment or decrement would overflow''), s)
                  else (Inr (v + amount),
                        s\<lparr>entries := (entries s)(key \<mapsto> (repr_int (v + amount), ttl))\<rparr>))))"

definition mem_expire :: "string \<Rightarrow> int \<Rightarrow> (redis, bool) call" where
  "mem_expire key ttl =
     command (\<lambda>s.
       case entries s key of
         None \<Rightarrow> (Inr False, s)
       | Some (data, old) \<Rightarrow>
           if ttl \<le> 0 then (Inr True, s\<lparr>entries := (entries s)(key := None)\<rparr>)
           else (Inr True, s\<lparr>entries := (entries s)(key \<mapsto> (data, Some ttl))\<rparr>))"

definition mem_ttl :: "string \<Rightarrow> (redis, int) call" where
  "mem_ttl key =
     command (\<lambda>s. (Inr (case entries s key of
                           None \<Rightarrow> - 2
                         | Some (data, None) \<Rightarrow> - 1
                         | Some (data, Some t) \<Rightarrow> t), s))"

definition mem_flushdb :: "(redis, bool) call" where
  "mem_flushdb = command (\<lambda>s. (Inr True, s\<lparr>entries := Map.empty\<rparr>))"

definition mem_info :: "(redis, string \<rightharpoonup> pyval) call" where
  "mem_info = command (\<lambda>s. (Inr (server_info s), s))"

definition mem_dbsize :: "(redis, int) call" where
  "mem_dbsize = command (\<lambda>s. (Inr (int (card (dom (entries s)))), s))"

definition memory_redis :: "(real \<Rightarrow> string) \<Rightarrow> redis redis_api" where
  "memory_redis frepr =
     \<lparr>cmd_set = mem_set frepr, cmd_setex = mem_setex frepr, cmd_get = mem_get,
      cmd_exists = mem_exists, cmd_delete = mem_delete, cmd_incr = mem_incr,
      cmd_expire = mem_expire, cmd_ttl = mem_ttl, cmd_flushdb = mem_flushdb,
      cmd_info = mem_info, cmd_dbsize = mem_dbsize\<rparr>"

text \<open>The passing of \<open>n\<close> seconds: a key whose time to live has run out is gone.\<close>

definition elapse :: "int \<Rightarrow> redis \<Rightarrow> redis" where
  "elapse n s =
     s\<lparr>entries := (\<lambda>k. case entries s k of
                          None \<Rightarrow> None
                        | Some (data, None) \<Rightarrow> Some (data, None)
                        | Some (data, Some t) \<Rightarrow> if t \<le> n then None else Some (data, Some (t - n)))\<rparr>"

section \<open>core-components/redis/example-caching.py: \<open>RedisCache\<close>\<close>

text \<open>
  A line printed by an \<open>except\<close> branch, \<open>print(f"... {what}: {e}")\<close>:
  \<open>ErrorLine what e\<close> is the text \<open>what\<close> (without the emoji the source puts in
  front), a colon and \<open>str(e)\<close>.

  The object has the four connection settings and the client. Its methods assign no
  attribute; what changes is the state behind \<open>self.client\<close>. Each method returns its
  result, the lines it printed and the object.
\<close>

datatype line = ErrorLine string exn

record 's RedisCache =
  host :: string
  port :: int
  db :: int
  password :: "string option"
  client :: 's

text \<open>
  \<^verbatim>\<open>
  def set(self, key: str, value: Any, ttl: Optional[int] = None) -> bool:
      try:
          if isinstance(value, (dict, list)):
              value = json.dumps(value)
          if ttl:
              result = self.client.setex(key, ttl, value)
          else:
              result = self.client.set(key, value)
          return bool(result)
      except Exception as e:
          print(f"Error setting cache key {key}: {e}")
          return False
  \<close>
\<close>

fun is_dict_or_list :: "pyval \<Rightarrow> bool" where
  "is_dict_or_list (PDict kvs) = True"
| "is_dict_or_list (PList xs) = True"
| "is_dict_or_list v = False"

definition set_payload :: "(real \<Rightarrow> string) \<Rightarrow> pyval \<Rightarrow> exn + pyval" where
  "set_payload frepr v = (if is_dict_or_list v then map_sum id PStr (json_dumps frepr v) else Inr v)"

definition set_command :: "'s redis_api \<Rightarrow> string \<Rightarrow> int option \<Rightarrow> pyval \<Rightarrow> ('s, bool) call" where
  "set_command api key ttl data =
     (case ttl of
        None \<Rightarrow> cmd_set api key data
      | Some n \<Rightarrow> if n = 0 then cmd_set api key data else cmd_setex api key n data)"

definition RedisCache_set ::
  "(real \<Rightarrow> string) \<Rightarrow> 's redis_api \<Rightarrow> 's RedisCache \<Rightarrow> string \<Rightarrow> pyval \<Rightarrow> int option
     \<Rightarrow> bool \<times> line list \<times> 's RedisCache" where
  "RedisCache_set frepr api self key v ttl =
     (case set_payload frepr v of
        Inl e \<Rightarrow> (False, [ErrorLine (''Error setting cache key '' @ key) e], self)
      | Inr data \<Rightarrow>
         (case set_command api key ttl data (client self) of
            (Inl e, s) \<Rightarrow> (False, [ErrorLine (''Error setting cache key '' @ key) e], self\<lparr>client := s\<rparr>)
          | (Inr r, s) \<Rightarrow> (r, [], self\<lparr>client := s\<rparr>)))"

text \<open>
  \<^verbatim>\<open>
  def get(self, key: str) -> Optional[Any]:
      try:
          value = self.client.get(key)
          if value is None:
              return None
          try:
              return json.loads(value)
          except json.JSONDecodeError:
              return value
      except Exception as e:
          print(f"Error getting cache key {key}: {e}")
          return None
  \<close>
\<close>

definition RedisCache_get ::
  "'s redis_api \<Rightarrow> 's RedisCache \<Rightarrow> string \<Rightarrow> pyval \<times> line list \<times> 's RedisCache" where
  "RedisCache_get api self key =
     (case cmd_get api key (client self) of
        (Inl e, s) \<Rightarrow> (PNone, [ErrorLine (''Error getting cache key '' @ key) e], self\<lparr>client := s\<rparr>)
      | (Inr None, s) \<Rightarrow> (PNone, [], self\<lparr>client := s\<rparr>)
      | (Inr (Some data), s) \<Rightarrow>
          (case json_loads data of
             Some v \<Rightarrow> (v, [], self\<lparr>client := s\<rparr>)
           | None \<Rightarrow> (PStr data, [], self\<lparr>client := s\<rparr>)))"

text \<open>
  The other methods have one shape: \<open>try: return f(self.client.cmd(...))\<close>,
  \<open>except Exception as e: print(...); return fallback\<close>. \<open>exists\<close> and \<open>delete\<close>
  return \<open>bool\<close> of the count, \<open>expire\<close> and \<open>flush_db\<close> \<open>bool\<close> of the reply,
  \<open>increment\<close> the new value, \<open>ttl\<close> the time to live when it is not negative and
  \<open>None\<close> otherwise, \<open>get_info\<close> six entries of \<open>info()\<close> read with \<open>info.get\<close>.
\<close>

definition RedisCache_exists ::
  "'s redis_api \<Rightarrow> 's RedisCache \<Rightarrow> string \<Rightarrow> bool \<times> line list \<times> 's RedisCache" where
  "RedisCache_exists api self key =
     (case cmd_exists api key (client self) of
        (Inl e, s) \<Rightarrow>
          (False, [ErrorLine (''Error checking existence of key '' @ key) e], self\<lparr>client := s\<rparr>)
      | (Inr n, s) \<Rightarrow> (n \<noteq> 0, [], self\<lparr>client := s\<rparr>))"

definition RedisCache_delete ::
  "'s redis_api \<Rightarrow> 's RedisCache \<Rightarrow> string \<Rightarrow> bool \<times> line list \<times> 's RedisCache" where
  "RedisCache_delete api self key =
     (case cmd_delete api key (client self) of
        (Inl e, s) \<Rightarrow> (False, [ErrorLine (''Error deleting key '' @ key) e], self\<lparr>client := s\<rparr>)
      | (Inr n, s) \<Rightarrow> (n \<noteq> 0, [], self\<lparr>client := s\<rparr>))"

definition RedisCache_increment ::
  "'s redis_api \<Rightarrow> 's RedisCache \<Rightarrow> string \<Rightarrow> int \<Rightarrow> int option \<times> line list \<times> 's RedisCache" where
  "RedisCache_increment api self key amount =
     (case cmd_incr api key amount (client self) of
        (Inl e, s) \<Rightarrow> (None, [ErrorLine (''Error incrementing key '' @ key) e], self\<lparr>client := s\<rparr>)
      | (Inr n, s) \<Rightarrow> (Some n, [], self\<lparr>client := s\<rparr>))"

definition RedisCache_expire ::
  "'s redis_api \<Rightarrow> 's RedisCache \<Rightarrow> string \<Rightarrow> int \<Rightarrow> bool \<times> line list \<times> 's RedisCache" where
  "RedisCache_expire api self key ttl =
     (case cmd_expire api key ttl (client self) of
        (Inl e, s) \<Rightarrow> (False, [ErrorLine (''Error setting TTL for key '' @ key) e], self\<lparr>client := s\<rparr>)
      | (Inr r, s) \<Rightarrow> (r, [], self\<lparr>client := s\<rparr>))"

definition RedisCache_ttl ::
  "'s redis_api \<Rightarrow> 's RedisCache \<Rightarrow> string \<Rightarrow> int option \<times> line list \<times> 's RedisCache" where
  "RedisCache_ttl api self key =
     (case cmd_ttl api key (client self) of
        (Inl e, s) \<Rightarrow> (None, [ErrorLine (''Error getting TTL for key '' @ key) e], self\<lparr>client := s\<rparr>)
      | (Inr t, s) \<Rightarrow> (if t \<ge> 0 then Some t else None, [], self\<lparr>client := s\<rparr>))"

definition RedisCache_flush_db ::
  "'s redis_api \<Rightarrow> 's RedisCache \<Rightarrow> bool \<times> line list \<times> 's RedisCache" where
  "RedisCache_flush_db api self =
     (case cmd_flushdb api (client self) of
        (Inl e, s) \<Rightarrow> (False, [ErrorLine ''Error flushing database'' e], self\<lparr>client := s\<rparr>)
      | (Inr r, s) \<Rightarrow> (r, [], self\<lparr>client := s\<rparr>))"

definition info_get :: "(string \<rightharpoonup> pyval) \<Rightarrow> string \<Rightarrow> string \<times> pyval" where
  "info_get info k = (k, case info k of None \<Rightarrow> PNone | Some v \<Rightarrow> v)"

definition RedisCache_get_info ::
  "'s redis_api \<Rightarrow> 's RedisCache \<Rightarrow> (string \<times> pyval) list \<times> line list \<times> 's RedisCache" where
  "RedisCache_get_info api self =
     (case cmd_info api (client self) of
        (Inl e, s) \<Rightarrow> ([], [ErrorLine ''Error getting Redis info'' e], self\<lparr>client := s\<rparr>)
      | (Inr info, s) \<Rightarrow>
          (map (info_get info)
             [''redis_version'', ''used_memory_human'', ''connected_clients'',
              ''total_commands_processed'', ''keyspace_hits'', ''keyspace_misses''],
           [], self\<lparr>client := s\<rparr>))"


text \<open>A server with no keys, reachable or not, and a \<open>RedisCache\<close> connected to it.\<close>

definition empty_redis :: "bool \<Rightarrow> redis" where
  "empty_redis up = \<lparr>entries = Map.empty, available = up, commands = 0, server_info = Map.empty\<rparr>"

definition new_cache :: "bool \<Rightarrow> redis RedisCache" where
  "new_cache up =
     \<lparr>host = ''localhost'', port = 6379, db = 0, password = None, client = empty_redis up\<rparr>"

section \<open>fastapi-redis/example-caching-api.py\<close>

text \<open>
  The module's globals: \<open>redis_client\<close> (\<open>None\<close> when the connection failed at
  import), the dictionary \<open>fake_database\<close> with its users and posts, the counters
  \<open>cache_stats\<close> and the constant \<open>CACHE_TTL\<close>. A user is a dict from field names to
  values, and the users are kept in the order of the dict. The posts are never changed;
  each is its four fields. \<open>cache_manager\<close> is \<open>CacheManager(redis_client)\<close> when
  \<open>redis_client\<close> is set and \<open>None\<close> otherwise, and \<open>db_service.cache\<close> is
  \<open>cache_manager\<close>.
\<close>

record cache_stats =
  hits :: int
  misses :: int
  sets :: int
  deletes :: int
  errors :: int

type_synonym user = "(string \<times> pyval) list"

record post =
  post_id :: string
  title :: string
  post_content :: string
  user_id :: string

record 's caching_api =
  redis_client :: "'s option"
  users :: "(string \<times> user) list"
  posts :: "(string \<times> post) list"
  cache_stats :: cache_stats
  CACHE_TTL :: int

definition user_value :: "user \<Rightarrow> pyval" where
  "user_value u = PDict (map (\<lambda>(k, v). (PStr k, v)) u)"

definition post_value :: "post \<Rightarrow> pyval" where
  "post_value p =
     PDict [(PStr ''id'', PStr (post_id p)), (PStr ''title'', PStr (title p)),
            (PStr ''content'', PStr (post_content p)), (PStr ''user_id'', PStr (user_id p))]"

definition fake_database_users :: "(string \<times> user) list" where
  "fake_database_users =
     [(''1'', [(''id'', PStr ''1''), (''name'', PStr ''John Doe''),
              (''email'', PStr ''john@example.com''), (''age'', PInt 30)]),
      (''2'', [(''id'', PStr ''2''), (''name'', PStr ''Jane Smith''),
              (''email'', PStr ''jane@example.com''), (''age'', PInt 25)]),
      (''3'', [(''id'', PStr ''3''), (''name'', PStr ''Bob Johnson''),
              (''email'', PStr ''bob@example.com''), (''age'', PInt 35)])]"

definition fake_database_posts :: "(string \<times> post) list" where
  "fake_database_posts =
     [(''1'', \<lparr>post_id = ''1'', title = ''First Post'',
              post_content = ''This is the first post'', user_id = ''1''\<rparr>),
      (''2'', \<lparr>post_id = ''2'', title = ''Second Post'',
              post_content = ''This is the second post'', user_id = ''2''\<rparr>),
      (''3'', \<lparr>post_id = ''3'', title = ''Third Post'',
              post_content = ''This is the third post'', user_id = ''1''\<rparr>)]"

definition module_start :: "'s option \<Rightarrow> 's caching_api" where
  "module_start r =
     \<lparr>redis_client = r, users = fake_database_users, posts = fake_database_posts,
      cache_stats = \<lparr>hits = 0, misses = 0, sets = 0, deletes = 0, errors = 0\<rparr>,
      CACHE_TTL = 300\<rparr>"

text \<open>\<open>cache_stats[...] += 1\<close>.\<close>

definition bump :: "(cache_stats \<Rightarrow> cache_stats) \<Rightarrow> 's caching_api \<Rightarrow> 's caching_api" where
  "bump f st = st\<lparr>cache_stats := f (cache_stats st)\<rparr>"

text \<open>
  \<^verbatim>\<open>
  def get(self, key: str) -> Optional[Any]:
      if not self.redis:
          return None
      try:
          cache_key = self._get_key(key)        # f"{self.prefix}{key}", prefix "cache:"
          data = self.redis.get(cache_key)
          if data:
              cache_stats["hits"] += 1
              return json.loads(data)
          else:
              cache_stats["misses"] += 1
              return None
      except Exception as e:
          cache_stats["errors"] += 1
          return None
  \<close>
\<close>

definition CacheManager_get ::
  "'s redis_api \<Rightarrow> string \<Rightarrow> 's caching_api \<Rightarrow> pyval \<times> 's caching_api" where
  "CacheManager_get api key st =
     (case redis_client st of
        None \<Rightarrow> (PNone, st)
      | Some r \<Rightarrow>
         (case cmd_get api (''cache:'' @ key) r of
            (Inl e, r') \<Rightarrow> (PNone, bump (\<lambda>c. c\<lparr>errors := errors c + 1\<rparr>) (st\<lparr>redis_client := Some r'\<rparr>))
          | (Inr None, r') \<Rightarrow> (PNone, bump (\<lambda>c. c\<lparr>misses := misses c + 1\<rparr>) (st\<lparr>redis_client := Some r'\<rparr>))
          | (Inr (Some data), r') \<Rightarrow>
              if data = [] then (PNone, bump (\<lambda>c. c\<lparr>misses := misses c + 1\<rparr>) (st\<lparr>redis_client := Some r'\<rparr>))
              else
                (case json_loads data of
                   Some v \<Rightarrow> (v, bump (\<lambda>c. c\<lparr>hits := hits c + 1\<rparr>) (st\<lparr>redis_client := Some r'\<rparr>))
                 | None \<Rightarrow>
                     (PNone, bump (\<lambda>c. c\<lparr>hits := hits c + 1, errors := errors c + 1\<rparr>)
                               (st\<lparr>redis_client := Some r'\<rparr>)))))"

text \<open>
  \<^verbatim>\<open>
  def set(self, key: str, value: Any, ttl: Optional[int] = None) -> bool:
      if not self.redis:
          return False
      try:
          cache_key = self._get_key(key)
          ttl = ttl or self.default_ttl
          serialized_value = json.dumps(value, default=str)
          result = self.redis.setex(cache_key, ttl, serialized_value)
          if result:
              cache_stats["sets"] += 1
          return result
      except Exception as e:
          cache_stats["errors"] += 1
          return False
  \<close>
  Every value of the model is one \<open>json.dumps\<close> serialises, so \<open>default=str\<close> is
  never called.
\<close>

definition CacheManager_set ::
  "(real \<Rightarrow> string) \<Rightarrow> 's redis_api \<Rightarrow> string \<Rightarrow> pyval \<Rightarrow> int option \<Rightarrow> 's caching_api
     \<Rightarrow> bool \<times> 's caching_api" where
  "CacheManager_set frepr api key v ttl st =
     (case redis_client st of
        None \<Rightarrow> (False, st)
      | Some r \<Rightarrow>
         (case json_dumps frepr v of
            Inl e \<Rightarrow> (False, bump (\<lambda>c. c\<lparr>errors := errors c + 1\<rparr>) st)
          | Inr serialized_value \<Rightarrow>
             (case cmd_setex api (''cache:'' @ key) (or_int ttl (CACHE_TTL st)) (PStr serialized_value) r of
                (Inl e, r') \<Rightarrow> (False, bump (\<lambda>c. c\<lparr>errors := errors c + 1\<rparr>) (st\<lparr>redis_client := Some r'\<rparr>))
              | (Inr res, r') \<Rightarrow>
                  (res, (if res then bump (\<lambda>c. c\<lparr>sets := sets c + 1\<rparr>) else id)
                          (st\<lparr>redis_client := Some r'\<rparr>)))))"

text \<open>
  \<^verbatim>\<open>
  def delete(self, key: str) -> bool:
      if not self.redis:
          return False
      try:
          cache_key = self._get_key(key)
          result = self.redis.delete(cache_key)
          if result:
              cache_stats["deletes"] += 1
          return bool(result)
      except Exception as e:
          cache_stats["errors"] += 1
          return False
  \<close>
\<close>

definition CacheManager_delete ::
  "'s redis_api \<Rightarrow> string \<Rightarrow> 's caching_api \<Rightarrow> bool \<times> 's caching_api" where
  "CacheManager_delete api key st =
     (case redis_client st of
        None \<Rightarrow> (False, st)
      | Some r \<Rightarrow>
         (case cmd_delete api (''cache:'' @ key) r of
            (Inl e, r') \<Rightarrow> (False, bump (\<lambda>c. c\<lparr>errors := errors c + 1\<rparr>) (st\<lparr>redis_client := Some r'\<rparr>))
          | (Inr n, r') \<Rightarrow>
              (n \<noteq> 0, (if n \<noteq> 0 then bump (\<lambda>c. c\<lparr>deletes := deletes c + 1\<rparr>) else id)
                         (st\<lparr>redis_client := Some r'\<rparr>))))"

text \<open>
  \<open>DatabaseService\<close>. Each read starts with
  \<open>if self.cache: cached = self.cache.get(cache_key)\<close> and returns \<open>cached\<close> when it
  is truthy.
  \<^verbatim>\<open>
  def get_user(self, user_id: str) -> Optional[Dict[str, Any]]:
      cache_key = f"user:{user_id}"
      if self.cache:
          cached_user = self.cache.get(cache_key)
          if cached_user:
              return cached_user
      user = fake_database["users"].get(user_id)
      if user and self.cache:
          self.cache.set(cache_key, user, ttl=300)
      return user
  \<close>
\<close>

definition cache_lookup ::
  "'s redis_api \<Rightarrow> string \<Rightarrow> 's caching_api \<Rightarrow> pyval \<times> 's caching_api" where
  "cache_lookup api key st =
     (if redis_client st = None then (PNone, st) else CacheManager_get api key st)"

definition get_user ::
  "(real \<Rightarrow> string) \<Rightarrow> 's redis_api \<Rightarrow> string \<Rightarrow> 's caching_api \<Rightarrow> pyval \<times> 's caching_api" where
  "get_user frepr api uid st =
     (case cache_lookup api (''user:'' @ uid) st of
        (cached_user, st1) \<Rightarrow>
          if truthy cached_user then (cached_user, st1)
          else
            (case map_of (users st1) uid of
               None \<Rightarrow> (PNone, st1)
             | Some u \<Rightarrow>
                 if u \<noteq> [] \<and> redis_client st1 \<noteq> None
                 then (user_value u,
                       snd (CacheManager_set frepr api (''user:'' @ uid) (user_value u) (Some 300) st1))
                 else (user_value u, st1)))"

text \<open>
  \<^verbatim>\<open>
  def get_all_users(self) -> List[Dict[str, Any]]:
      cache_key = "users:all"
      (cache lookup as above)
      users = list(fake_database["users"].values())
      if self.cache:
          self.cache.set(cache_key, users, ttl=180)
      return users
  \<close>
\<close>

definition get_all_users ::
  "(real \<Rightarrow> string) \<Rightarrow> 's redis_api \<Rightarrow> 's caching_api \<Rightarrow> pyval \<times> 's caching_api" where
  "get_all_users frepr api st =
     (case cache_lookup api ''users:all'' st of
        (cached_users, st1) \<Rightarrow>
          if truthy cached_users then (cached_users, st1)
          else
            (let all_users = PList (map (\<lambda>(k, u). user_value u) (users st1))
             in if redis_client st1 \<noteq> None
                then (all_users, snd (CacheManager_set frepr api ''users:all'' all_users (Some 180) st1))
                else (all_users, st1)))"

text \<open>
  \<^verbatim>\<open>
  def get_user_posts(self, user_id: str) -> List[Dict[str, Any]]:
      cache_key = f"user:{user_id}:posts"
      (cache lookup as above)
      posts = [post for post in fake_database["posts"].values() if post["user_id"] == user_id]
      if self.cache:
          self.cache.set(cache_key, posts, ttl=240)
      return posts
  \<close>
\<close>

definition get_user_posts ::
  "(real \<Rightarrow> string) \<Rightarrow> 's redis_api \<Rightarrow> string \<Rightarrow> 's caching_api \<Rightarrow> pyval \<times> 's caching_api" where
  "get_user_posts frepr api uid st =
     (case cache_lookup api (''user:'' @ uid @ '':posts'') st of
        (cached_posts, st1) \<Rightarrow>
          if truthy cached_posts then (cached_posts, st1)
          else
            (let user_posts =
                   PList (map (\<lambda>(k, p). post_value p) (filter (\<lambda>(k, p). user_id p = uid) (posts st1)))
             in if redis_client st1 \<noteq> None
                then (user_posts,
                      snd (CacheManager_set frepr api (''user:'' @ uid @ '':posts'') user_posts (Some 240) st1))
                else (user_posts, st1)))"

text \<open>
  \<^verbatim>\<open>
  def update_user(self, user_id: str, user_data: Dict[str, Any]) -> Optional[Dict[str, Any]]:
      if user_id not in fake_database["users"]:
          return None
      fake_database["users"][user_id].update(user_data)
      updated_user = fake_database["users"][user_id]
      if self.cache:
          self.cache.delete(f"user:{user_id}")
          self.cache.delete("users:all")
      return updated_user
  \<close>
\<close>

definition dict_update :: "('k \<times> 'v) list \<Rightarrow> ('k \<times> 'v) list \<Rightarrow> ('k \<times> 'v) list" where
  "dict_update d other = foldl (\<lambda>acc (k, v). dict_set acc k v) d other"

definition update_user ::
  "'s redis_api \<Rightarrow> string \<Rightarrow> user \<Rightarrow> 's caching_api \<Rightarrow> pyval \<times> 's caching_api" where
  "update_user api uid user_data st =
     (case map_of (users st) uid of
        None \<Rightarrow> (PNone, st)
      | Some u \<Rightarrow>
         (let updated_user = dict_update u user_data;
              st1 = st\<lparr>users := map (\<lambda>(k, x). if k = uid then (k, updated_user) else (k, x)) (users st)\<rparr>;
              st2 = (if redis_client st1 \<noteq> None
                     then snd (CacheManager_delete api ''users:all''
                                 (snd (CacheManager_delete api (''user:'' @ uid) st1)))
                     else st1)
          in (user_value updated_user, st2)))"


text \<open>
  \<^verbatim>\<open>
  def get_cache_stats():
      total_requests = cache_stats["hits"] + cache_stats["misses"]
      hit_rate = cache_stats["hits"] / total_requests if total_requests > 0 else 0
      memory_usage = None
      total_keys = 0
      if redis_client:
          try:
              info = redis_client.info()
              memory_usage = info.get("used_memory_human")
              total_keys = redis_client.dbsize()
          except Exception as e:
              logger.error(f"Error getting Redis info: {e}")
      return CacheStats(hits=..., hit_rate=hit_rate, total_keys=total_keys,
                        memory_usage=memory_usage)
  \<close>
  \<open>a / b\<close> on ints raises \<open>ZeroDivisionError\<close> when \<open>b\<close> is zero. The response model
  turns the int \<open>0\<close> into the float \<open>0.0\<close>; its check of \<open>memory_usage\<close> is the
  framework's and is not modelled.
\<close>

definition truediv :: "int \<Rightarrow> int \<Rightarrow> exn + real" where
  "truediv a b = (if b = 0 then Inl (Error ''division by zero'') else Inr (of_int a / of_int b))"

record CacheStats =
  stats_hits :: int
  stats_misses :: int
  stats_sets :: int
  stats_deletes :: int
  stats_errors :: int
  hit_rate :: real
  total_keys :: int
  memory_usage :: pyval

definition redis_usage :: "'s redis_api \<Rightarrow> 's \<Rightarrow> (pyval \<times> int) \<times> 's" where
  "redis_usage api r =
     (case cmd_info api r of
        (Inl e, r1) \<Rightarrow> ((PNone, 0), r1)
      | (Inr info, r1) \<Rightarrow>
         (let used = (case info ''used_memory_human'' of None \<Rightarrow> PNone | Some v \<Rightarrow> v)
          in case cmd_dbsize api r1 of
               (Inl e, r2) \<Rightarrow> ((used, 0), r2)
             | (Inr n, r2) \<Rightarrow> ((used, n), r2)))"

definition get_cache_stats :: "'s redis_api \<Rightarrow> 's caching_api \<Rightarrow> (exn + CacheStats) \<times> 's caching_api" where
  "get_cache_stats api st =
     (let c = cache_stats st;
          total_requests = hits c + misses c
      in case (if total_requests > 0 then truediv (hits c) total_requests else Inr 0) of
           Inl e \<Rightarrow> (Inl e, st)
         | Inr rate \<Rightarrow>
            (case (case redis_client st of
                     None \<Rightarrow> ((PNone, 0), st)
                   | Some r \<Rightarrow> (case redis_usage api r of (res, r') \<Rightarrow> (res, st\<lparr>redis_client := Some r'\<rparr>))) of
               ((used, keys), st') \<Rightarrow>
                 (Inr \<lparr>stats_hits = hits c, stats_misses = misses c, stats_sets = sets c,
                       stats_deletes = deletes c, stats_errors = errors c, hit_rate = rate,
                       total_keys = keys, memory_usage = used\<rparr>, st')))"

text \<open>
  A run of the service against the executable Redis: the four operations of
  \<open>DatabaseService\<close>, and the passing of time.
\<close>

datatype event =
    GetUser string
  | GetAllUsers
  | GetUserPosts string
  | UpdateUser string user
  | Elapse int

fun handle :: "(real \<Rightarrow> string) \<Rightarrow> redis caching_api \<Rightarrow> event \<Rightarrow> redis caching_api" where
  "handle frepr st (GetUser uid) = snd (get_user frepr (memory_redis frepr) uid st)"
| "handle frepr st GetAllUsers = snd (get_all_users frepr (memory_redis frepr) st)"
| "handle frepr st (GetUserPosts uid) = snd (get_user_posts frepr (memory_redis frepr) uid st)"
| "handle frepr st (UpdateUser uid user_data) = snd (update_user (memory_redis frepr) uid user_data st)"
| "handle frepr st (Elapse n) = st\<lparr>redis_client := map_option (elapse n) (redis_client st)\<rparr>"

definition serve :: "(real \<Rightarrow> string) \<Rightarrow> event list \<Rightarrow> redis caching_api \<Rightarrow> redis caching_api" where
  "serve frepr events st = foldl (handle frepr) st events"

text \<open>
  What the cache holds under a \<open>CacheManager\<close> key, and coherence at a user id: an entry
  under \<open>user:{id}\<close> is the JSON text of the user that \<open>fake_database["users"]\<close> has
  under \<open>id\<close>.
\<close>

definition cached :: "redis caching_api \<Rightarrow> string \<Rightarrow> string option" where
  "cached st key =
     (case redis_client st of
        None \<Rightarrow> None
      | Some r \<Rightarrow> map_option fst (entries r (''cache:'' @ key)))"

definition coherent_at :: "(real \<Rightarrow> string) \<Rightarrow> redis caching_api \<Rightarrow> string \<Rightarrow> bool" where
  "coherent_at frepr st uid =
     (case cached st (''user:'' @ uid) of
        None \<Rightarrow> True
      | Some data \<Rightarrow>
         (case map_of (users st) uid of
            None \<Rightarrow> False
          | Some u \<Rightarrow> json_dumps frepr (user_value u) = Inr data))"

text \<open>The server can be reached (or there is none, and no cache).\<close>

definition reachable :: "redis caching_api \<Rightarrow> bool" where
  "reachable st = (case redis_client st of None \<Rightarrow> True | Some r \<Rightarrow> available r)"

text \<open>\<open>s.endswith(suffix)\<close>.\<close>

definition endswith :: "string \<Rightarrow> string \<Rightarrow> bool" where
  "endswith s suffix = (length suffix \<le> length s \<and> drop (length s - length suffix) s = suffix)"

text \<open>
  Coherence at every id that does not end in \<open>:posts\<close>: for those ids the key
  \<open>user:{id}\<close> is not the key \<open>user:{user_id}:posts\<close> of any user's posts.
\<close>

definition coherent :: "(real \<Rightarrow> string) \<Rightarrow> redis caching_api \<Rightarrow> bool" where
  "coherent frepr st = (\<forall>uid. \<not> endswith uid '':posts'' \<longrightarrow> coherent_at frepr st uid)"

text \<open>The state when the module has been imported, and a change of the server's reach.\<close>

definition set_available :: "bool \<Rightarrow> redis caching_api \<Rightarrow> redis caching_api" where
  "set_available up st = st\<lparr>redis_client := map_option (\<lambda>r. r\<lparr>available := up\<rparr>) (redis_client st)\<rparr>"

definition start :: "redis caching_api" where
  "start = module_start (Some (empty_redis True))"

section \<open>Inputs for the witnesses of the chat endpoint\<close>






section \<open>ai-llm/openai/example-embeddings.py: \<open>OpenAIEmbeddingsClient\<close>\<close>
























section \<open>Theorems: token counting and cost\<close>

lemma split_a_b: "split ''a b'' = [''a'', ''b'']"
  by (simp add: split_def isspace_def)




text \<open>
  C3: \<open>calculate_cost(t, m)\<close> is \<open>(t / 1000) * rate(m)\<close>, with the rate 0.03 for
  \<open>gpt-4\<close>, 0.01 for \<open>gpt-4-turbo\<close>, 0.002 for \<open>gpt-3.5-turbo\<close> and 0.03 for every
  other model. \<open>t\<close> ranges over the ints and the floats the callers pass.
\<close>

theorem calculate_cost_pricing:
  "calculate_cost t m =
     (num_value t / 1000) *
       (if m = ''gpt-4'' then 0.03 else if m = ''gpt-4-turbo'' then 0.01
        else if m = ''gpt-3.5-turbo'' then 0.002 else 0.03)"
  by (simp add: calculate_cost_def pricing_def)

text \<open>
  C8: in the chat API, whenever \<open>tiktoken.encoding_for_model(model)\<close> raises,
  \<open>count_tokens(text, model)\<close> is the float \<open>len(text.split()) * 1.3\<close>; the
  function-calling API's \<open>count_tokens\<close> is that float for every text. Both are declared
  \<open>-> int\<close>. The witness is a text on which the value, 2.6, is not a whole number.
\<close>

theorem count_tokens_returns_float:
  assumes "tk m = Inl e"
  shows "count_tokens_chat_api tk text m
           = PyFloat (real (length (split text)) * 1.3)
         \<and> is_float (count_tokens_chat_api tk text m)
         \<and> count_tokens_function_calling_api text = PyFloat (real (length (split text)) * 1.3)
         \<and> is_float (count_tokens_function_calling_api text)"
  using assms by (simp add: count_tokens_chat_api_def count_tokens_function_calling_api_def)

theorem count_tokens_returns_float_witness:
  "count_tokens_chat_api (\<lambda>m. Inl (Error ''KeyError'')) ''a b'' ''my-model'' = PyFloat (13 / 5)
   \<and> count_tokens_function_calling_api ''a b'' = PyFloat (13 / 5)
   \<and> num_value (count_tokens_function_calling_api ''a b'') \<notin> \<int>"
proof -
  have frac: "(13 / 5 :: real) \<notin> \<int>"
  proof
    assume "(13 / 5 :: real) \<in> \<int>"
    then obtain k :: int where k: "(13 / 5 :: real) = of_int k"
      by (auto elim: Ints_cases)
    then have "(13 :: real) = of_int (5 * k)" by simp
    then have "(13 :: int) = 5 * k" by linarith
    then show False by presburger
  qed
  from count_tokens_returns_float [of "\<lambda>m. Inl (Error ''KeyError'')" "''my-model''"
      "Error ''KeyError''" "''a b''"] frac
  show ?thesis
    by (simp add: split_a_b)
qed

section \<open>Theorems: \<open>RedisCache\<close>\<close>

lemmas json_dumps_eval = json_dumps_def repr_int_def digits.simps digit_char_def hex_char_def
  encode_str_def escape_char_def

lemmas json_loads_eval = json_loads_def skip_ws_def json_ws_def scan_once.simps parse_array.simps
  parse_object.simps match_number_def is_digit_def digits_value_def digit_value_def
  unescape_def decode_hex4_def hex_value_def

lemmas memory_redis_eval = memory_redis_def mem_set_def mem_setex_def mem_get_def mem_exists_def
  mem_delete_def mem_incr_def mem_expire_def mem_ttl_def mem_flushdb_def mem_info_def
  mem_dbsize_def command_def

text \<open>
  C6: whenever the client call of a \<open>RedisCache\<close> operation raises, the operation
  returns its fallback (\<open>False\<close> for \<open>set\<close>, \<open>exists\<close>, \<open>delete\<close>, \<open>expire\<close> and
  \<open>flush_db\<close>, \<open>None\<close> for \<open>get\<close>, \<open>increment\<close> and \<open>ttl\<close>, the empty dict for
  \<open>get_info\<close>) and prints one line. The object it leaves differs from the one it started
  from in the client's state only, and that state is the one the failing call left:
  nothing is sent again. For \<open>set\<close> the client call is \<open>setex\<close> when \<open>ttl\<close> is truthy and
  \<open>set\<close> otherwise, on the value or on its JSON text.
\<close>

theorem RedisCache_fallback:
  "(set_payload frepr v = Inr data \<longrightarrow> set_command api key ttl data (client self) = (Inl e, s) \<longrightarrow>
      RedisCache_set frepr api self key v ttl
        = (False, [ErrorLine (''Error setting cache key '' @ key) e], self\<lparr>client := s\<rparr>))
   \<and> (cmd_get api key (client self) = (Inl e, s) \<longrightarrow>
      RedisCache_get api self key
        = (PNone, [ErrorLine (''Error getting cache key '' @ key) e], self\<lparr>client := s\<rparr>))
   \<and> (cmd_exists api key (client self) = (Inl e, s) \<longrightarrow>
      RedisCache_exists api self key
        = (False, [ErrorLine (''Error checking existence of key '' @ key) e], self\<lparr>client := s\<rparr>))
   \<and> (cmd_delete api key (client self) = (Inl e, s) \<longrightarrow>
      RedisCache_delete api self key
        = (False, [ErrorLine (''Error deleting key '' @ key) e], self\<lparr>client := s\<rparr>))
   \<and> (cmd_incr api key amount (client self) = (Inl e, s) \<longrightarrow>
      RedisCache_increment api self key amount
        = (None, [ErrorLine (''Error incrementing key '' @ key) e], self\<lparr>client := s\<rparr>))
   \<and> (cmd_expire api key n (client self) = (Inl e, s) \<longrightarrow>
      RedisCache_expire api self key n
        = (False, [ErrorLine (''Error setting TTL for key '' @ key) e], self\<lparr>client := s\<rparr>))
   \<and> (cmd_ttl api key (client self) = (Inl e, s) \<longrightarrow>
      RedisCache_ttl api self key
        = (None, [ErrorLine (''Error getting TTL for key '' @ key) e], self\<lparr>client := s\<rparr>))
   \<and> (cmd_flushdb api (client self) = (Inl e, s) \<longrightarrow>
      RedisCache_flush_db api self
        = (False, [ErrorLine ''Error flushing database'' e], self\<lparr>client := s\<rparr>))
   \<and> (cmd_info api (client self) = (Inl e, s) \<longrightarrow>
      RedisCache_get_info api self
        = ([], [ErrorLine ''Error getting Redis info'' e], self\<lparr>client := s\<rparr>))"
  by (simp add: RedisCache_set_def RedisCache_get_def RedisCache_exists_def RedisCache_delete_def
      RedisCache_increment_def RedisCache_expire_def RedisCache_ttl_def RedisCache_flush_db_def
      RedisCache_get_info_def)

text \<open>
  The witness: a server that cannot be reached. Every operation returns its fallback, and
  the client has sent one command.
\<close>

theorem RedisCache_fallback_witness:
  "RedisCache_set (\<lambda>x. []) (memory_redis (\<lambda>x. [])) (new_cache False) ''k'' (PStr ''v'') (Some 60)
     = (False, [ErrorLine ''Error setting cache key k'' (Error ''Connection refused'')],
        (new_cache False)\<lparr>client := (empty_redis False)\<lparr>commands := 1\<rparr>\<rparr>)
   \<and> RedisCache_get (memory_redis (\<lambda>x. [])) (new_cache False) ''k''
     = (PNone, [ErrorLine ''Error getting cache key k'' (Error ''Connection refused'')],
        (new_cache False)\<lparr>client := (empty_redis False)\<lparr>commands := 1\<rparr>\<rparr>)
   \<and> fst (RedisCache_exists (memory_redis (\<lambda>x. [])) (new_cache False) ''k'') = False
   \<and> fst (RedisCache_delete (memory_redis (\<lambda>x. [])) (new_cache False) ''k'') = False
   \<and> fst (RedisCache_increment (memory_redis (\<lambda>x. [])) (new_cache False) ''k'' 1) = None
   \<and> fst (RedisCache_expire (memory_redis (\<lambda>x. [])) (new_cache False) ''k'' 60) = False
   \<and> fst (RedisCache_ttl (memory_redis (\<lambda>x. [])) (new_cache False) ''k'') = None
   \<and> fst (RedisCache_flush_db (memory_redis (\<lambda>x. [])) (new_cache False)) = False
   \<and> fst (RedisCache_get_info (memory_redis (\<lambda>x. [])) (new_cache False)) = []"
  using RedisCache_fallback [of "\<lambda>x. []" "PStr ''v''" "PStr ''v''" "memory_redis (\<lambda>x. [])" "''k''"
      "Some 60" "new_cache False" "Error ''Connection refused''"
      "(empty_redis False)\<lparr>commands := 1\<rparr>" 1 60]
  by (simp add: memory_redis_eval set_payload_def set_command_def new_cache_def empty_redis_def)




section \<open>Theorems: the caching API\<close>

text \<open>
  C10: \<open>get_cache_stats\<close> always returns (the division is never by zero), and the
  \<open>hit_rate\<close> it reports is \<open>hits / (hits + misses)\<close> when \<open>hits + misses > 0\<close> and
  \<open>0\<close> otherwise.
\<close>

theorem get_cache_stats_hit_rate:
  "\<exists>cs st'. get_cache_stats api st = (Inr cs, st')
     \<and> hit_rate cs =
         (if hits (cache_stats st) + misses (cache_stats st) > 0
          then of_int (hits (cache_stats st)) / of_int (hits (cache_stats st) + misses (cache_stats st))
          else 0)"
  by (auto simp: get_cache_stats_def truediv_def Let_def split: option.splits prod.splits sum.splits)


lemma endswith_append: "endswith (x @ sfx) sfx"
  by (simp add: endswith_def)

lemma get_effect:
  "users (snd (CacheManager_get (memory_redis f) key st)) = users st"
  "cached (snd (CacheManager_get (memory_redis f) key st)) k = cached st k"
  "reachable (snd (CacheManager_get (memory_redis f) key st)) = reachable st"
  "(redis_client (snd (CacheManager_get (memory_redis f) key st)) = None) = (redis_client st = None)"
  by (auto simp: CacheManager_get_def memory_redis_eval bump_def cached_def reachable_def Let_def
      split: option.splits prod.splits sum.splits if_splits)

lemma lookup_effect:
  "users (snd (cache_lookup (memory_redis f) key st)) = users st"
  "cached (snd (cache_lookup (memory_redis f) key st)) k = cached st k"
  "reachable (snd (cache_lookup (memory_redis f) key st)) = reachable st"
  "(redis_client (snd (cache_lookup (memory_redis f) key st)) = None) = (redis_client st = None)"
  by (simp_all add: cache_lookup_def get_effect)

lemma set_effect:
  "users (snd (CacheManager_set f (memory_redis f) key v ttl st)) = users st"
  "reachable (snd (CacheManager_set f (memory_redis f) key v ttl st)) = reachable st"
  "cached (snd (CacheManager_set f (memory_redis f) key v ttl st)) k = Some d
     \<Longrightarrow> cached st k = Some d \<or> (k = key \<and> json_dumps f v = Inr d)"
  by (auto simp: CacheManager_set_def memory_redis_eval bump_def cached_def reachable_def Let_def
      split: option.splits prod.splits sum.splits if_splits)

lemma delete_effect:
  "users (snd (CacheManager_delete (memory_redis f) key st)) = users st"
  "reachable (snd (CacheManager_delete (memory_redis f) key st)) = reachable st"
  "cached (snd (CacheManager_delete (memory_redis f) key st)) k = Some d \<Longrightarrow> cached st k = Some d"
  "reachable st \<Longrightarrow> cached (snd (CacheManager_delete (memory_redis f) key st)) key = None"
  by (auto simp: CacheManager_delete_def memory_redis_eval bump_def cached_def reachable_def Let_def
      split: option.splits prod.splits sum.splits if_splits)


lemma coherent_at_iff:
  "coherent_at f st uid \<longleftrightarrow>
     (\<forall>d. cached st (''user:'' @ uid) = Some d \<longrightarrow>
        (\<exists>u. map_of (users st) uid = Some u \<and> json_dumps f (user_value u) = Inr d))"
  by (auto simp: coherent_at_def split: option.splits)

lemma coherent_step:
  assumes "coherent f st" and "users st' = users st"
    and "\<And>x d. \<not> endswith x '':posts'' \<Longrightarrow> cached st' (''user:'' @ x) = Some d \<Longrightarrow>
           cached st (''user:'' @ x) = Some d
           \<or> (\<exists>u. map_of (users st) x = Some u \<and> json_dumps f (user_value u) = Inr d)"
  shows "coherent f st'"
  unfolding coherent_def coherent_at_iff
proof (intro allI impI)
  fix x d
  assume x: "\<not> endswith x '':posts''" and d: "cached st' (''user:'' @ x) = Some d"
  from assms(3) [OF x d] assms(1) x assms(2)
  show "\<exists>u. map_of (users st') x = Some u \<and> json_dumps f (user_value u) = Inr d"
    by (auto simp: coherent_def coherent_at_iff)
qed

lemma get_user_coherent:
  assumes "coherent f st"
  shows "coherent f (snd (get_user f (memory_redis f) uid st))"
proof -
  obtain c st1 where l: "cache_lookup (memory_redis f) (''user:'' @ uid) st = (c, st1)"
    by (cases "cache_lookup (memory_redis f) (''user:'' @ uid) st")
  have st1: "users st1 = users st" "\<And>k. cached st1 k = cached st k"
    using lookup_effect(1,2) [of f "''user:'' @ uid" st] l by simp_all
  have c1: "coherent f st1"
    using assms st1 by (auto intro: coherent_step)
  show ?thesis
  proof (cases "\<not> truthy c \<and> (\<exists>u. map_of (users st1) uid = Some u \<and> u \<noteq> [] \<and> redis_client st1 \<noteq> None)")
    case False
    with l c1 show ?thesis by (auto simp: get_user_def split: option.splits)
  next
    case True
    then obtain u where u: "map_of (users st1) uid = Some u" "u \<noteq> []" "redis_client st1 \<noteq> None"
      and c: "\<not> truthy c" by auto
    define st2 where
      "st2 = snd (CacheManager_set f (memory_redis f) (''user:'' @ uid) (user_value u) (Some 300) st1)"
    have res: "snd (get_user f (memory_redis f) uid st) = st2"
      using u c l by (simp add: get_user_def st2_def)
    have "coherent f st2"
    proof (rule coherent_step [OF c1])
      show "users st2 = users st1" by (simp add: st2_def set_effect)
    next
      fix x d
      assume "cached st2 (''user:'' @ x) = Some d"
      from set_effect(3) [OF this [unfolded st2_def]] u
      show "cached st1 (''user:'' @ x) = Some d
            \<or> (\<exists>u. map_of (users st1) x = Some u \<and> json_dumps f (user_value u) = Inr d)"
        by auto
    qed
    with res show ?thesis by simp
  qed
qed

lemma get_all_users_coherent:
  assumes "coherent f st"
  shows "coherent f (snd (get_all_users f (memory_redis f) st))"
proof -
  obtain c st1 where l: "cache_lookup (memory_redis f) ''users:all'' st = (c, st1)"
    by (cases "cache_lookup (memory_redis f) ''users:all'' st")
  have st1: "users st1 = users st" "\<And>k. cached st1 k = cached st k"
    using lookup_effect(1,2) [of f "''users:all''" st] l by simp_all
  have c1: "coherent f st1"
    using assms st1 by (auto intro: coherent_step)
  define all_users where "all_users = PList (map (\<lambda>(k, u). user_value u) (users st1))"
  define st2 where
    "st2 = snd (CacheManager_set f (memory_redis f) ''users:all'' all_users (Some 180) st1)"
  have "coherent f st2"
  proof (rule coherent_step [OF c1])
    show "users st2 = users st1" by (simp add: st2_def set_effect)
  next
    fix x d
    assume "cached st2 (''user:'' @ x) = Some d"
    from set_effect(3) [OF this [unfolded st2_def]]
    show "cached st1 (''user:'' @ x) = Some d
          \<or> (\<exists>u. map_of (users st1) x = Some u \<and> json_dumps f (user_value u) = Inr d)"
      by auto
  qed
  with c1 l show ?thesis
    by (auto simp: get_all_users_def Let_def st2_def all_users_def)
qed

lemma get_user_posts_coherent:
  assumes "coherent f st"
  shows "coherent f (snd (get_user_posts f (memory_redis f) uid st))"
proof -
  obtain c st1 where l: "cache_lookup (memory_redis f) (''user:'' @ uid @ '':posts'') st = (c, st1)"
    by (cases "cache_lookup (memory_redis f) (''user:'' @ uid @ '':posts'') st")
  have st1: "users st1 = users st" "\<And>k. cached st1 k = cached st k"
    using lookup_effect(1,2) [of f "''user:'' @ uid @ '':posts''" st] l by simp_all
  have c1: "coherent f st1"
    using assms st1 by (auto intro: coherent_step)
  define user_posts where
    "user_posts = PList (map (\<lambda>(k, p). post_value p) (filter (\<lambda>(k, p). user_id p = uid) (posts st1)))"
  define st2 where
    "st2 = snd (CacheManager_set f (memory_redis f) (''user:'' @ uid @ '':posts'') user_posts (Some 240) st1)"
  have "coherent f st2"
  proof (rule coherent_step [OF c1])
    show "users st2 = users st1" by (simp add: st2_def set_effect)
  next
    fix x d
    assume x: "\<not> endswith x '':posts''" and "cached st2 (''user:'' @ x) = Some d"
    from set_effect(3) [OF this(2) [unfolded st2_def]] x endswith_append [of uid "'':posts''"]
    show "cached st1 (''user:'' @ x) = Some d
          \<or> (\<exists>u. map_of (users st1) x = Some u \<and> json_dumps f (user_value u) = Inr d)"
      by auto
  qed
  with c1 l show ?thesis
    by (auto simp: get_user_posts_def Let_def st2_def user_posts_def)
qed

lemma map_of_replace:
  "map_of (map (\<lambda>(k, x). if k = uid then (k, v) else (k, x)) xs) y
     = (if y = uid then map_option (\<lambda>_. v) (map_of xs y) else map_of xs y)"
  by (induction xs) auto

lemma update_user_coherent:
  assumes "coherent f st" and "reachable st"
  shows "coherent f (snd (update_user (memory_redis f) uid user_data st))"
proof (cases "map_of (users st) uid")
  case None
  with assms show ?thesis by (simp add: update_user_def)
next
  case (Some u)
  define st1 where
    "st1 = st\<lparr>users := map (\<lambda>(k, x). if k = uid then (k, dict_update u user_data) else (k, x)) (users st)\<rparr>"
  define st2 where "st2 = snd (CacheManager_delete (memory_redis f) (''user:'' @ uid) st1)"
  define st3 where "st3 = snd (CacheManager_delete (memory_redis f) ''users:all'' st2)"
  have res: "snd (update_user (memory_redis f) uid user_data st) = (if redis_client st1 \<noteq> None then st3 else st1)"
    using Some by (simp add: update_user_def Let_def st1_def st2_def st3_def)
  have users1: "map_of (users st1) x = (if x = uid then Some (dict_update u user_data) else map_of (users st) x)" for x
    using Some by (simp add: st1_def map_of_replace)
  have cached1: "cached st1 k = cached st k" for k
    by (simp add: st1_def cached_def)
  have r1: "reachable st1" using assms(2) by (simp add: st1_def reachable_def)
  have none1: "redis_client st1 = None \<Longrightarrow> cached st1 k = None" for k
    by (simp add: cached_def)
  have users3: "users st3 = users st1" "users st2 = users st1"
    by (simp_all add: st3_def st2_def delete_effect)
  have gone: "cached st3 (''user:'' @ uid) = None"
  proof -
    have "cached st2 (''user:'' @ uid) = None"
      unfolding st2_def by (rule delete_effect(4) [OF r1])
    then show ?thesis
      using delete_effect(3) [of f "''users:all''" st2 "''user:'' @ uid"]
      by (cases "cached st3 (''user:'' @ uid)") (auto simp: st3_def)
  qed
  have sub: "cached st3 k = Some d \<Longrightarrow> cached st k = Some d" for k d
    using delete_effect(3) [of f "''users:all''" st2 k d]
      delete_effect(3) [of f "''user:'' @ uid" st1 k d] cached1
    by (simp add: st3_def st2_def)
  have "coherent f st3"
    unfolding coherent_def coherent_at_iff
  proof (intro allI impI)
    fix x d
    assume x: "\<not> endswith x '':posts''" and d: "cached st3 (''user:'' @ x) = Some d"
    from d gone have "x \<noteq> uid" by auto
    moreover from sub [OF d] assms(1) x
    have "\<exists>u. map_of (users st) x = Some u \<and> json_dumps f (user_value u) = Inr d"
      by (auto simp: coherent_def coherent_at_iff)
    ultimately show "\<exists>u. map_of (users st3) x = Some u \<and> json_dumps f (user_value u) = Inr d"
      by (simp add: users3 users1)
  qed
  moreover have "coherent f st1" if "redis_client st1 = None"
    using none1 [OF that] by (simp add: coherent_def coherent_at_iff)
  ultimately show ?thesis
    by (simp add: res)
qed

lemma elapse_coherent:
  assumes "coherent f st"
  shows "coherent f (st\<lparr>redis_client := map_option (elapse n) (redis_client st)\<rparr>)"
proof (rule coherent_step [OF assms])
  show "users (st\<lparr>redis_client := map_option (elapse n) (redis_client st)\<rparr>) = users st" by simp
next
  fix x d
  assume "cached (st\<lparr>redis_client := map_option (elapse n) (redis_client st)\<rparr>) (''user:'' @ x) = Some d"
  then have "cached st (''user:'' @ x) = Some d"
    by (auto simp: cached_def elapse_def split: option.splits if_splits)
  then show "cached st (''user:'' @ x) = Some d
        \<or> (\<exists>u. map_of (users st) x = Some u \<and> json_dumps f (user_value u) = Inr d)" ..
qed

lemma handle_reachable: "reachable (handle f st ev) = reachable st"
proof (cases ev)
  case (GetUser uid)
  then show ?thesis
    by (auto simp: get_user_def lookup_effect set_effect split: prod.splits option.splits)
       (metis lookup_effect(3) snd_conv)+
next
  case GetAllUsers
  then show ?thesis
    by (auto simp: get_all_users_def Let_def lookup_effect set_effect split: prod.splits)
       (metis lookup_effect(3) snd_conv)+
next
  case (GetUserPosts uid)
  then show ?thesis
    by (auto simp: get_user_posts_def Let_def lookup_effect set_effect split: prod.splits)
       (metis lookup_effect(3) snd_conv)+
next
  case (UpdateUser uid user_data)
  moreover have "reachable (st\<lparr>users := xs\<rparr>) = reachable st" for xs
    by (simp add: reachable_def)
  ultimately show ?thesis
    by (simp add: update_user_def Let_def delete_effect split: option.splits)
next
  case (Elapse n)
  then show ?thesis
    by (auto simp: reachable_def elapse_def split: option.splits)
qed

lemma handle_coherent: "coherent f st \<Longrightarrow> reachable st \<Longrightarrow> coherent f (handle f st ev)"
  by (cases ev)
     (simp_all add: get_user_coherent get_all_users_coherent get_user_posts_coherent
        update_user_coherent elapse_coherent)

text \<open>
  C4, amended. While the server can be reached, every run of \<open>get_user\<close>,
  \<open>get_all_users\<close>, \<open>get_user_posts\<close> and \<open>update_user\<close> (and of time passing) keeps
  the cache coherent with the database at every id that does not end in \<open>:posts\<close>:
  an entry under \<open>user:{id}\<close> is the JSON text of \<open>fake_database["users"][id]\<close>.
\<close>

theorem serve_coherent:
  assumes "reachable st" and "coherent frepr st"
  shows "coherent frepr (serve frepr events st)"
  using assms unfolding serve_def
proof (induction events arbitrary: st)
  case Nil
  then show ?case by simp
next
  case (Cons ev events)
  then show ?case by (simp add: handle_coherent handle_reachable)
qed

lemmas api_eval = serve_def get_user_def get_all_users_def get_user_posts_def update_user_def
  cache_lookup_def CacheManager_get_def CacheManager_set_def CacheManager_delete_def bump_def
  module_start_def fake_database_users_def fake_database_posts_def empty_redis_def
  user_value_def post_value_def or_int_def dict_update_def cached_def coherent_at_def
  set_available_def elapse_def start_def

text \<open>
  The witness: from the state after import, a read, an update, ten seconds and a second
  read of user 1 leave under \<open>user:1\<close> the JSON text of the updated user.
\<close>

theorem serve_coherent_witness:
  "reachable start \<and> coherent (\<lambda>x. []) start
   \<and> coherent (\<lambda>x. [])
        (serve (\<lambda>x. []) [GetUser ''1'', UpdateUser ''1'' [(''age'', PInt 31)], Elapse 10, GetUser ''1'']
           start)
   \<and> cached (serve (\<lambda>x. [])
                [GetUser ''1'', UpdateUser ''1'' [(''age'', PInt 31)], Elapse 10, GetUser ''1''] start)
        ''user:1''
      = Some ''{\"id\": \"1\", \"name\": \"John Doe\", \"email\": \"john@example.com\", \"age\": 31}''"
proof -
  have r: "reachable start"
    by (simp add: reachable_def start_def module_start_def empty_redis_def)
  have c: "coherent (\<lambda>x. []) start"
    by (simp add: coherent_def coherent_at_def cached_def start_def module_start_def empty_redis_def)
  have v: "cached (serve (\<lambda>x. [])
                [GetUser ''1'', UpdateUser ''1'' [(''age'', PInt 31)], Elapse 10, GetUser ''1''] start)
             ''user:1''
           = Some ''{\"id\": \"1\", \"name\": \"John Doe\", \"email\": \"john@example.com\", \"age\": 31}''"
    by (simp add: api_eval memory_redis_eval json_dumps_eval json_loads_eval)
  from r c v serve_coherent [OF r c] show ?thesis by simp
qed

text \<open>
  C4, as stated, fails. \<open>get_user_posts("2")\<close> stores the posts of user 2 under
  \<open>user:2:posts\<close>, which is also the key \<open>user:{id}\<close> of the id \<open>2:posts\<close>: the cache
  holds an entry under that key, the database has no such user, and \<open>get_user("2:posts")\<close>
  returns the list of posts. And an \<open>update_user\<close> while the server cannot be reached
  leaves the entry of the user as it was before the update.
\<close>

theorem cache_not_coherent:
  "\<not> coherent_at (\<lambda>x. []) (serve (\<lambda>x. []) [GetUserPosts ''2''] start) ''2:posts''
   \<and> map_of (users (serve (\<lambda>x. []) [GetUserPosts ''2''] start)) ''2:posts'' = None
   \<and> fst (get_user (\<lambda>x. []) (memory_redis (\<lambda>x. [])) ''2:posts''
            (serve (\<lambda>x. []) [GetUserPosts ''2''] start))
       = PList [PDict [(PStr ''id'', PStr ''2''), (PStr ''title'', PStr ''Second Post''),
           (PStr ''content'', PStr ''This is the second post''), (PStr ''user_id'', PStr ''2'')]]
   \<and> \<not> coherent_at (\<lambda>x. [])
         (set_available True (serve (\<lambda>x. []) [UpdateUser ''1'' [(''age'', PInt 31)]]
            (set_available False (serve (\<lambda>x. []) [GetUser ''1''] start)))) ''1''"
proof -
  have a: "\<not> coherent_at (\<lambda>x. []) (serve (\<lambda>x. []) [GetUserPosts ''2''] start) ''2:posts''"
    by (simp add: api_eval memory_redis_eval json_dumps_eval)
  have b: "map_of (users (serve (\<lambda>x. []) [GetUserPosts ''2''] start)) ''2:posts'' = None"
    by (simp add: api_eval memory_redis_eval json_dumps_eval)
  have c: "fst (get_user (\<lambda>x. []) (memory_redis (\<lambda>x. [])) ''2:posts''
                 (serve (\<lambda>x. []) [GetUserPosts ''2''] start))
           = PList [PDict [(PStr ''id'', PStr ''2''), (PStr ''title'', PStr ''Second Post''),
               (PStr ''content'', PStr ''This is the second post''), (PStr ''user_id'', PStr ''2'')]]"
    by (simp add: api_eval memory_redis_eval json_dumps_eval json_loads_eval)
  have d: "\<not> coherent_at (\<lambda>x. [])
         (set_available True (serve (\<lambda>x. []) [UpdateUser ''1'' [(''age'', PInt 31)]]
            (set_available False (serve (\<lambda>x. []) [GetUser ''1''] start)))) ''1''"
    by (simp add: api_eval memory_redis_eval json_dumps_eval)
  from a b c d show ?thesis by blast
qed

section \<open>Theorems: HTTP errors\<close>




section \<open>Theorems: similarity ranking\<close>











end
